theory Spec2Isabelle
  imports Main "HOL-Library.Word"
begin

section \<open>The JSON iterator transformer of flytekit\<close>

text \<open>
  This theory embeds \<^verbatim>\<open>flytekit/types/iterator/json_iterator.py\<close>: the class
  \<^verbatim>\<open>JSONIterator\<close> and the four operations of \<^verbatim>\<open>JSONIteratorTransformer\<close>
  (\<^verbatim>\<open>get_literal_type\<close>, \<^verbatim>\<open>to_literal\<close>, \<^verbatim>\<open>to_python_value\<close>,
  \<^verbatim>\<open>guess_python_type\<close>). Exceptions are values of the type \<open>error\<close>, a call that
  may raise returns \<open>error + 'a\<close>, and the file store that the program reaches through
  \<^verbatim>\<open>FlyteFile\<close> and \<^verbatim>\<open>ctx.file_access\<close> is an explicit state that is passed in
  and returned.
\<close>

subsection \<open>Host values and host types\<close>

text \<open>
  The type alias of the source,
  \<^verbatim>\<open>JSON = dict[str, JSON] | list[JSON] | str | int | float | bool | None\<close>.
  Python's \<^verbatim>\<open>int\<close> is unbounded. A \<^verbatim>\<open>float\<close> is carried as its 64-bit pattern:
  the transformer moves values and never computes with them. A dictionary is the list of
  its items in insertion order.
\<close>

datatype json =
    JNull
  | JBool bool
  | JInt int
  | JFloat "64 word"
  | JStr string
  | JList "json list"
  | JDict "(string \<times> json) list"

text \<open>
  Type annotations. \<open>JSON\<close> is the alias above, \<open>Class n\<close> a class known by its
  qualified name, \<open>Generic g ts\<close> a parameterised generic with origin \<open>g\<close>, such as
  \<^verbatim>\<open>Iterator[JSON]\<close>.
\<close>

datatype host_type =
    JSON
  | Class string
  | Generic string "host_type list"

subsection \<open>The literal model\<close>

text \<open>
  Modelled from the spec: the modules \<^verbatim>\<open>flytekit.models.types\<close>,
  \<^verbatim>\<open>flytekit.models.core.types\<close> and \<^verbatim>\<open>flytekit.models.literals\<close> are not among the
  sources. The wire type and the literal follow section 3 of the specification (tagged
  variants with structural equality); the names are the ones the source uses when it
  builds and reads them (\<^verbatim>\<open>LiteralType(blob=BlobType(format=..., dimensionality=...))\<close>,
  \<^verbatim>\<open>Literal(scalar=Scalar(blob=Blob(metadata=..., uri=...)))\<close>, \<^verbatim>\<open>lv.scalar.blob.uri\<close>).
\<close>

datatype BlobDimensionality = SINGLE | MULTIPART

record BlobType =
  format :: string
  dimensionality :: BlobDimensionality

datatype SimpleType = NONE | INTEGER | FLOAT | STRING | BOOLEAN | DATETIME | DURATION | BINARY

datatype LiteralType =
    LiteralType_simple SimpleType
  | LiteralType_collection LiteralType
  | LiteralType_map LiteralType
  | LiteralType_union "LiteralType list"
  | LiteralType_blob BlobType
  | LiteralType_record "(string \<times> LiteralType) list"

text \<open>The attribute \<^verbatim>\<open>literal_type.blob\<close>: \<open>None\<close> unless the descriptor is a blob.\<close>

fun literal_type_blob :: "LiteralType \<Rightarrow> BlobType option" where
  "literal_type_blob (LiteralType_blob b) = Some b"
| "literal_type_blob _ = None"

record BlobMetadata =
  blob_type :: BlobType

record Blob =
  metadata :: BlobMetadata
  uri :: string

datatype Primitive =
    Primitive_integer int
  | Primitive_float "64 word"
  | Primitive_string string
  | Primitive_boolean bool

datatype Scalar =
    Scalar_primitive Primitive
  | Scalar_blob Blob

datatype Literal =
    Literal_scalar Scalar
  | Literal_collection "Literal list"
  | Literal_map "(string \<times> Literal) list"
  | Literal_union LiteralType Literal
  | Literal_record "(string \<times> Literal) list"

text \<open>The attributes \<^verbatim>\<open>lv.scalar\<close> and \<^verbatim>\<open>scalar.blob\<close>: \<open>None\<close> when the variant is another.\<close>

fun scalar :: "Literal \<Rightarrow> Scalar option" where
  "scalar (Literal_scalar s) = Some s"
| "scalar _ = None"

fun blob :: "Scalar \<Rightarrow> Blob option" where
  "blob (Scalar_blob b) = Some b"
| "blob _ = None"

subsection \<open>Exceptions\<close>

text \<open>
  The exceptions the module raises or lets through. Two messages of the source are
  f-strings over the offending values; the model keeps the values instead of their
  printed form.
\<close>

datatype message =
    Text string
  | Cannot_convert Literal host_type
  | Cannot_reverse LiteralType

datatype error =
    ValueError message
  | TypeTransformerFailedError message
  | AttributeError
  | StopIteration message
  | EOFError
  | RuntimeError message
  | FileNotFoundError string
  | UnsupportedTypeError host_type

subsection \<open>Describing and guessing types\<close>

definition JSON_ITERATOR_FORMAT :: string where
  "JSON_ITERATOR_FORMAT = ''JSONL''"

text \<open>\<^verbatim>\<open>get_literal_type(self, t)\<close>: the annotation \<open>t\<close> is not read.\<close>

definition get_literal_type :: "host_type \<Rightarrow> LiteralType" where
  "get_literal_type t =
     LiteralType_blob \<lparr>format = JSON_ITERATOR_FORMAT, dimensionality = SINGLE\<rparr>"

text \<open>
  \<^verbatim>\<open>guess_python_type(self, literal_type)\<close>: the three conjuncts of the source's test, in
  its order, then the \<^verbatim>\<open>raise ValueError\<close>.
\<close>

definition guess_python_type :: "LiteralType \<Rightarrow> error + host_type" where
  "guess_python_type literal_type =
     (case literal_type_blob literal_type of
        None \<Rightarrow> Inl (ValueError (Cannot_reverse literal_type))
      | Some b \<Rightarrow>
          if dimensionality b = SINGLE \<and> format b = JSON_ITERATOR_FORMAT
          then Inr JSON
          else Inl (ValueError (Cannot_reverse literal_type)))"

subsection \<open>The storage collaborator\<close>

text \<open>
  Modelled from the spec: \<^verbatim>\<open>FlyteFile\<close> (\<^verbatim>\<open>flytekit.types.file\<close>) and the
  \<^verbatim>\<open>file_access\<close> of the context are not among the sources. Section 6 of the
  specification gives the contract the transformer relies on: \<^verbatim>\<open>new_uri\<close>,
  \<^verbatim>\<open>open_for_write(uri)\<close> and \<^verbatim>\<open>open_for_read(uri)\<close>. The store maps a URI to the
  lines of the file it names. The files here are written and read through
  \<^verbatim>\<open>jsonlines\<close>, one JSON value per line, so a line is held as the value it encodes:
  the text encoding of a value and its parsing are the library's and are not modelled.
\<close>

type_synonym uri = string

type_synonym storage = "uri \<rightharpoonup> json list"

record FlyteFile =
  path :: uri

text \<open>
  \<^verbatim>\<open>FlyteFile.new_remote_file()\<close> draws a random remote path. The path drawn is an
  argument of the model.
\<close>

definition new_remote_file :: "uri \<Rightarrow> FlyteFile" where
  "new_remote_file fresh = \<lparr>path = fresh\<rparr>"

text \<open>The store that holds no file.\<close>

definition empty_storage :: storage where
  "empty_storage = Map.empty"

text \<open>Opening for writing creates the file, or truncates the one that is there.\<close>

definition open_for_write :: "storage \<Rightarrow> uri \<Rightarrow> storage" where
  "open_for_write st u = st(u \<mapsto> [])"

text \<open>\<^verbatim>\<open>writer.write(json_val)\<close> appends one line to the file opened at \<open>u\<close>.\<close>

definition writer_write :: "storage \<Rightarrow> uri \<Rightarrow> json \<Rightarrow> storage" where
  "writer_write st u v = st(u \<mapsto> (case st u of None \<Rightarrow> [v] | Some ls \<Rightarrow> ls @ [v]))"

text \<open>Opening for reading fails when no file has the name.\<close>

definition open_for_read :: "storage \<Rightarrow> uri \<Rightarrow> error + json list" where
  "open_for_read st u = (case st u of None \<Rightarrow> Inl (FileNotFoundError u) | Some ls \<Rightarrow> Inr ls)"

subsection \<open>Encoding\<close>

text \<open>
  The loop of \<^verbatim>\<open>to_literal\<close>,
  \<^verbatim>\<open>for json_val in python_val: writer.write(json_val); empty = False\<close>,
  over the flag \<^verbatim>\<open>empty\<close> (here \<open>is_empty\<close>) and the store. The iterator \<^verbatim>\<open>python_val\<close> is the finite
  sequence of the values it yields.
\<close>

fun write_loop :: "uri \<Rightarrow> json list \<Rightarrow> bool \<times> storage \<Rightarrow> bool \<times> storage" where
  "write_loop u [] (is_empty, st) = (is_empty, st)"
| "write_loop u (json_val # rest) (is_empty, st) =
     write_loop u rest (False, writer_write st u json_val)"

text \<open>
  \<^verbatim>\<open>to_literal(self, ctx, python_val, python_type, expected)\<close>. The result is paired
  with the store as the call leaves it, also when it raises. Both \<^verbatim>\<open>with\<close> blocks are
  left before the test of \<^verbatim>\<open>empty\<close>.
\<close>

definition to_literal ::
  "storage \<Rightarrow> uri \<Rightarrow> json list \<Rightarrow> host_type \<Rightarrow> LiteralType \<Rightarrow> (error + Literal) \<times> storage"
where
  "to_literal ctx fresh python_val python_type expected =
     (let remote_path = new_remote_file fresh;
          (is_empty, st) = write_loop (path remote_path) python_val
                          (True, open_for_write ctx (path remote_path))
      in if is_empty then (Inl (ValueError (Text ''The iterator is empty.'')), st)
         else
           (let meta = \<lparr>blob_type = \<lparr>format = JSON_ITERATOR_FORMAT, dimensionality = SINGLE\<rparr>\<rparr>
            in (Inr (Literal_scalar (Scalar_blob \<lparr>metadata = meta, uri = path remote_path\<rparr>)),
                st)))"

subsection \<open>The reader and the iterator\<close>

text \<open>
  \<^verbatim>\<open>jsonlines.Reader(fp)\<close>: the lines not yet read and the flag that \<^verbatim>\<open>close()\<close> sets.
  \<^verbatim>\<open>read()\<close> refuses a closed reader, raises \<^verbatim>\<open>EOFError\<close> at the end of the file and
  returns the next line otherwise.
\<close>

record Reader =
  reader_lines :: "json list"
  reader_closed :: bool

definition Reader_init :: "json list \<Rightarrow> Reader" where
  "Reader_init fp = \<lparr>reader_lines = fp, reader_closed = False\<rparr>"



text \<open>
  \<^verbatim>\<open>JSONIterator\<close> holds the reader (\<^verbatim>\<open>self._reader\<close>) and the generator
  \<^verbatim>\<open>reader.iter()\<close> (\<^verbatim>\<open>self._reader_iter\<close>), which reads from that same reader. Of the
  generator the model keeps whether it has finished.
\<close>

record JSONIterator =
  reader :: Reader
  reader_iter_finished :: bool

definition JSONIterator_init :: "Reader \<Rightarrow> JSONIterator" where
  "JSONIterator_init r = \<lparr>reader = r, reader_iter_finished = False\<rparr>"




subsection \<open>Decoding\<close>

text \<open>
  The attribute chain \<^verbatim>\<open>lv.scalar.blob.uri\<close>: reading an attribute of \<^verbatim>\<open>None\<close> raises
  \<^verbatim>\<open>AttributeError\<close>.
\<close>

definition scalar_blob_uri :: "Literal \<Rightarrow> error + uri" where
  "scalar_blob_uri lv =
     (case scalar lv of
        None \<Rightarrow> Inl AttributeError
      | Some s \<Rightarrow> (case blob s of None \<Rightarrow> Inl AttributeError | Some b \<Rightarrow> Inr (uri b)))"

text \<open>
  \<^verbatim>\<open>to_python_value(self, ctx, lv, expected_python_type)\<close>: the \<^verbatim>\<open>try\<close> turns
  \<^verbatim>\<open>AttributeError\<close> into \<^verbatim>\<open>TypeTransformerFailedError\<close>; what the store raises on
  opening passes to the caller.
\<close>

definition to_python_value :: "storage \<Rightarrow> Literal \<Rightarrow> host_type \<Rightarrow> error + JSONIterator" where
  "to_python_value ctx lv expected_python_type =
     (case scalar_blob_uri lv of
        Inl AttributeError \<Rightarrow>
          Inl (TypeTransformerFailedError (Cannot_convert lv expected_python_type))
      | Inl e \<Rightarrow> Inl e
      | Inr u \<Rightarrow>
          (case open_for_read ctx u of
             Inl e \<Rightarrow> Inl e
           | Inr fp \<Rightarrow> Inr (JSONIterator_init (Reader_init fp))))"



subsection \<open>The registry\<close>











section \<open>Properties\<close>

subsection \<open>The writing loop and the encoder\<close>

text \<open>The flag stays set exactly when the loop body never ran.\<close>

lemma write_loop_fst: "fst (write_loop u vs (b, st)) = (b \<and> vs = [])"
  by (induction vs arbitrary: b st) simp_all

text \<open>The loop appends the values, in their order, to the file it writes.\<close>

lemma write_loop_snd:
  "st u = Some c \<Longrightarrow> snd (write_loop u vs (b, st)) = st(u \<mapsto> c @ vs)"
proof (induction vs arbitrary: b st c)
  case Nil
  then show ?case by (simp add: fun_upd_idem)
next
  case (Cons v vs)
  have "writer_write st u v = st(u \<mapsto> c @ [v])"
    using Cons.prems by (simp add: writer_write_def)
  moreover have "snd (write_loop u vs (False, st(u \<mapsto> c @ [v]))) = (st(u \<mapsto> c @ [v]))(u \<mapsto> (c @ [v]) @ vs)"
    by (rule Cons.IH) simp
  ultimately show ?case by simp
qed

text \<open>The result of \<^verbatim>\<open>to_literal\<close> and the store it leaves, in closed form.\<close>

lemma to_literal_eq:
  "to_literal ctx fresh vs pt ex =
     (if vs = [] then Inl (ValueError (Text ''The iterator is empty.''))
      else Inr (Literal_scalar (Scalar_blob
             \<lparr>metadata = \<lparr>blob_type = \<lparr>format = ''JSONL'', dimensionality = SINGLE\<rparr>\<rparr>,
              uri = fresh\<rparr>)),
      ctx(fresh \<mapsto> vs))"
proof -
  have s: "snd (write_loop fresh vs (True, open_for_write ctx fresh)) = ctx(fresh \<mapsto> vs)"
    using write_loop_snd [of "open_for_write ctx fresh" fresh "[]" vs True]
    by (simp add: open_for_write_def)
  have f: "fst (write_loop fresh vs (True, open_for_write ctx fresh)) = (vs = [])"
    by (simp add: write_loop_fst)
  obtain e st where w: "write_loop fresh vs (True, open_for_write ctx fresh) = (e, st)"
    by (cases "write_loop fresh vs (True, open_for_write ctx fresh)")
  with s f have "e = (vs = [])" "st = ctx(fresh \<mapsto> vs)" by simp_all
  with w show ?thesis
    by (simp add: to_literal_def new_remote_file_def JSON_ITERATOR_FORMAT_def)
qed

subsection \<open>The steps of the iterator\<close>







subsection \<open>The decoder by the shape of the literal\<close>

lemma to_python_value_blob:
  "to_python_value ctx (Literal_scalar (Scalar_blob b)) t =
     (case ctx (uri b) of
        None \<Rightarrow> Inl (FileNotFoundError (uri b))
      | Some c \<Rightarrow>
          Inr \<lparr>reader = \<lparr>reader_lines = c, reader_closed = False\<rparr>, reader_iter_finished = False\<rparr>)"
  by (simp add: to_python_value_def scalar_blob_uri_def open_for_read_def
                JSONIterator_init_def Reader_init_def split: option.splits)

lemma to_python_value_not_blob:
  assumes "\<And>b. lv \<noteq> Literal_scalar (Scalar_blob b)"
  shows "to_python_value ctx lv t = Inl (TypeTransformerFailedError (Cannot_convert lv t))"
proof (cases lv)
  case (Literal_scalar s)
  with assms show ?thesis
    by (cases s) (auto simp: to_python_value_def scalar_blob_uri_def)
qed (simp_all add: to_python_value_def scalar_blob_uri_def)

subsection \<open>The claims\<close>



text \<open>
  C3. \<^verbatim>\<open>get_literal_type\<close> is determined by nothing but the transformer: on any two
  annotations it returns structurally equal descriptors, the blob type of format
  \<^verbatim>\<open>JSONL\<close> and dimensionality \<^verbatim>\<open>SINGLE\<close>. It takes the annotation only and no
  value.
\<close>
theorem get_literal_type_deterministic:
  "get_literal_type t = get_literal_type t'
   \<and> get_literal_type t = LiteralType_blob \<lparr>format = ''JSONL'', dimensionality = SINGLE\<rparr>"
  by (simp add: get_literal_type_def JSON_ITERATOR_FORMAT_def)

text \<open>
  C4. \<^verbatim>\<open>guess_python_type\<close> dispatches on the variant and the format tag of the wire
  type: it returns the host type \<^verbatim>\<open>JSON\<close> exactly when the descriptor is a blob with
  dimensionality \<^verbatim>\<open>SINGLE\<close> and format \<^verbatim>\<open>JSONL\<close>, and raises
  \<^verbatim>\<open>ValueError\<close> on every other descriptor.
\<close>
theorem guess_python_type_dispatch:
  "guess_python_type literal_type =
     (if literal_type = LiteralType_blob \<lparr>format = ''JSONL'', dimensionality = SINGLE\<rparr>
      then Inr JSON
      else Inl (ValueError (Cannot_reverse literal_type)))"
  by (cases literal_type)
     (auto simp: guess_python_type_def JSON_ITERATOR_FORMAT_def)

text \<open>
  C5, as stated, fails. A literal that holds a scalar blob whose URI names no file of
  the store is not decoded to an iterator: opening the file for reading raises and
  \<^verbatim>\<open>to_python_value\<close> lets the exception through.
\<close>
theorem to_python_value_missing_file_counterexample:
  "to_python_value empty_storage
     (Literal_scalar (Scalar_blob
        \<lparr>metadata = \<lparr>blob_type = \<lparr>format = ''JSONL'', dimensionality = SINGLE\<rparr>\<rparr>,
         uri = ''missing''\<rparr>))
     (Generic ''Iterator'' [JSON])
   = Inl (FileNotFoundError ''missing'')"
  by (simp add: to_python_value_def scalar_blob_uri_def open_for_read_def empty_storage_def)

text \<open>
  C5, amended. For every literal that does not hold a scalar blob, \<^verbatim>\<open>to_python_value\<close>
  raises \<^verbatim>\<open>TypeTransformerFailedError\<close> (the specification's \<^verbatim>\<open>DecodeError\<close>). For
  every literal that holds a scalar blob whose URI names a file of the store, it returns
  a \<^verbatim>\<open>JSONIterator\<close> over that file and raises nothing. When the URI names no file, the
  error of the store is raised.
\<close>
theorem to_python_value_shape:
  "((\<forall>b. lv \<noteq> Literal_scalar (Scalar_blob b)) \<longrightarrow>
      to_python_value ctx lv expected_python_type
        = Inl (TypeTransformerFailedError (Cannot_convert lv expected_python_type)))
   \<and> (ctx (uri b) = Some c \<longrightarrow>
        to_python_value ctx (Literal_scalar (Scalar_blob b)) expected_python_type
          = Inr (JSONIterator_init (Reader_init c)))
   \<and> (ctx (uri b) = None \<longrightarrow>
        to_python_value ctx (Literal_scalar (Scalar_blob b)) expected_python_type
          = Inl (FileNotFoundError (uri b)))"
  by (simp add: to_python_value_blob to_python_value_not_blob
                JSONIterator_init_def Reader_init_def)

text \<open>
  The three cases at a store that holds one file: a collection literal, a blob at the
  file, a blob at another URI.
\<close>
theorem to_python_value_shape_witness:
  "(\<forall>b. Literal_collection [] \<noteq> Literal_scalar (Scalar_blob b))
   \<and> to_python_value (empty_storage(''f'' \<mapsto> [JInt 1])) (Literal_collection []) JSON
       = Inl (TypeTransformerFailedError (Cannot_convert (Literal_collection []) JSON))
   \<and> (empty_storage(''f'' \<mapsto> [JInt 1])) ''f'' = Some [JInt 1]
   \<and> to_python_value (empty_storage(''f'' \<mapsto> [JInt 1]))
        (Literal_scalar (Scalar_blob
           \<lparr>metadata = \<lparr>blob_type = \<lparr>format = ''JSONL'', dimensionality = SINGLE\<rparr>\<rparr>,
            uri = ''f''\<rparr>)) JSON
       = Inr (JSONIterator_init (Reader_init [JInt 1]))
   \<and> (empty_storage(''f'' \<mapsto> [JInt 1])) ''g'' = None
   \<and> to_python_value (empty_storage(''f'' \<mapsto> [JInt 1]))
        (Literal_scalar (Scalar_blob
           \<lparr>metadata = \<lparr>blob_type = \<lparr>format = ''JSONL'', dimensionality = SINGLE\<rparr>\<rparr>,
            uri = ''g''\<rparr>)) JSON
       = Inl (FileNotFoundError ''g'')"
  using to_python_value_shape
          [of "Literal_collection []" "empty_storage(''f'' \<mapsto> [JInt 1])" JSON
              "\<lparr>metadata = \<lparr>blob_type = \<lparr>format = ''JSONL'', dimensionality = SINGLE\<rparr>\<rparr>,
                uri = ''f''\<rparr>" "[JInt 1]"]
        to_python_value_shape
          [of "Literal_collection []" "empty_storage(''f'' \<mapsto> [JInt 1])" JSON
              "\<lparr>metadata = \<lparr>blob_type = \<lparr>format = ''JSONL'', dimensionality = SINGLE\<rparr>\<rparr>,
                uri = ''g''\<rparr>" "[]"]
  by (simp add: empty_storage_def)




text \<open>
  C7. Every literal that \<^verbatim>\<open>to_literal\<close> returns is a scalar blob made of the metadata
  (format \<^verbatim>\<open>JSONL\<close>, dimensionality \<^verbatim>\<open>SINGLE\<close>) and the URI of the remote file. It
  is the same literal whatever values were encoded: the payload is in the store and the
  literal refers to it by URI only.
\<close>
theorem to_literal_blob_reference:
  "fst (to_literal ctx fresh python_val python_type expected) = Inr lv \<Longrightarrow>
   lv = Literal_scalar (Scalar_blob
          \<lparr>metadata = \<lparr>blob_type = \<lparr>format = ''JSONL'', dimensionality = SINGLE\<rparr>\<rparr>,
           uri = fresh\<rparr>)"
  by (simp add: to_literal_eq split: if_splits)

text \<open>Encoding two values to \<^verbatim>\<open>s3://bucket/f0\<close>.\<close>
theorem to_literal_blob_reference_witness:
  "fst (to_literal empty_storage ''s3://bucket/f0'' [JInt 1, JStr ''a''] (Generic ''Iterator'' [JSON])
          (get_literal_type (Generic ''Iterator'' [JSON])))
     = Inr (Literal_scalar (Scalar_blob
          \<lparr>metadata = \<lparr>blob_type = \<lparr>format = ''JSONL'', dimensionality = SINGLE\<rparr>\<rparr>,
           uri = ''s3://bucket/f0''\<rparr>))"
proof -
  obtain lv where h:
    "fst (to_literal empty_storage ''s3://bucket/f0'' [JInt 1, JStr ''a''] (Generic ''Iterator'' [JSON])
            (get_literal_type (Generic ''Iterator'' [JSON]))) = Inr lv"
    by (simp add: to_literal_def new_remote_file_def Let_def)
  from to_literal_blob_reference [OF h] h show ?thesis
    by simp
qed

text \<open>
  C9. Encoding an empty iterator is not atomic on the store: when \<^verbatim>\<open>to_literal\<close> raises
  on an empty input, the store it leaves holds the remote file, created and empty,
  whatever the store held before. The file was opened for writing before the test of
  the flag, and nothing removes it.
\<close>
theorem to_literal_empty_leaves_file:
  "to_literal ctx fresh [] python_type expected
     = (Inl (ValueError (Text ''The iterator is empty.'')), ctx(fresh \<mapsto> []))
   \<and> snd (to_literal ctx fresh [] python_type expected) fresh = Some []"
  by (simp add: to_literal_eq)



end
